theory Spec2Isabelle
  imports Main "HOL-Library.AList"
begin

section \<open>JavaScript values\<close>

text \<open>
  The values that flow through \<^verbatim>\<open>backend/server.js\<close> are the results of
  \<^verbatim>\<open>JSON.parse\<close>, object literals built by the handlers, and \<^verbatim>\<open>undefined\<close>
  for an absent property. A number is kept as its canonical rendering \<^verbatim>\<open>String(n)\<close>:
  the code never computes with a parsed number, it only tests it for truthiness,
  compares it, interpolates it into a template and serialises it. An object is the
  list of its own properties in insertion order; the keys of one object are pairwise
  distinct.
  Strings are byte strings.
\<close>

datatype jsval =
    Undefined
  | Null
  | Bool bool
  | Num string
  | Str string
  | Arr "jsval list"
  | Obj "(string \<times> jsval) list"

text \<open>
  A computation either throws an \<^verbatim>\<open>Error\<close>, of which only the \<^verbatim>\<open>message\<close>
  is ever read (\<open>Inl\<close> of the message), or completes with a value (\<open>Inr\<close>).
\<close>

type_synonym 'a completion = "string + 'a"

abbreviation squote :: char where "squote \<equiv> CHR 0x27"
abbreviation dquote :: char where "dquote \<equiv> CHR 0x22"
abbreviation backslash :: char where "backslash \<equiv> CHR 0x5C"
abbreviation newline :: char where "newline \<equiv> CHR 0x0A"

text \<open>Truthiness, as tested by \<^verbatim>\<open>!x\<close>, \<^verbatim>\<open>x && y\<close> and \<^verbatim>\<open>x || y\<close>.\<close>

fun truthy :: "jsval \<Rightarrow> bool" where
  "truthy Undefined = False"
| "truthy Null = False"
| "truthy (Bool b) = b"
| "truthy (Num r) = (r \<noteq> ''0'' \<and> r \<noteq> ''NaN'')"
| "truthy (Str s) = (s \<noteq> [])"
| "truthy (Arr xs) = True"
| "truthy (Obj kvs) = True"

text \<open>
  Reading a property \<^verbatim>\<open>v.k\<close> whose name no prototype defines (the names the source
  reads are \<^verbatim>\<open>type\<close>, \<^verbatim>\<open>workspaceId\<close>, \<^verbatim>\<open>message\<close>, \<^verbatim>\<open>userId\<close>,
  \<^verbatim>\<open>projectName\<close>, \<^verbatim>\<open>success\<close>, \<^verbatim>\<open>error\<close>, \<^verbatim>\<open>id\<close>, \<^verbatim>\<open>data\<close>,
  \<^verbatim>\<open>content\<close>, \<^verbatim>\<open>text\<close>, \<^verbatim>\<open>clone_url\<close>, \<^verbatim>\<open>html_url\<close>): an object yields
  its own property or \<^verbatim>\<open>undefined\<close>, another non-nullish value yields
  \<^verbatim>\<open>undefined\<close>, and \<^verbatim>\<open>null\<close> and \<^verbatim>\<open>undefined\<close> throw a TypeError.
\<close>

fun own_prop :: "jsval \<Rightarrow> string \<Rightarrow> jsval" where
  "own_prop (Obj kvs) k = (case map_of kvs k of None \<Rightarrow> Undefined | Some v \<Rightarrow> v)"
| "own_prop v k = Undefined"

fun nullish :: "jsval \<Rightarrow> bool" where
  "nullish Undefined = True"
| "nullish Null = True"
| "nullish v = False"

definition get_prop :: "jsval \<Rightarrow> string \<Rightarrow> jsval completion" where
  "get_prop v k =
     (if nullish v
      then Inl (''Cannot read properties of '' @ (if v = Null then ''null'' else ''undefined'')
                @ '' (reading '' @ [squote] @ k @ [squote] @ '')'')
      else Inr (own_prop v k))"

text \<open>Indexing \<^verbatim>\<open>v[0]\<close>: the first element of an array, the first character of a string.\<close>

fun get_first :: "jsval \<Rightarrow> jsval completion" where
  "get_first Undefined = Inl ''Cannot read properties of undefined (reading 0)''"
| "get_first Null = Inl ''Cannot read properties of null (reading 0)''"
| "get_first (Arr xs) = Inr (case xs of [] \<Rightarrow> Undefined | x # _ \<Rightarrow> x)"
| "get_first (Str s) = Inr (case s of [] \<Rightarrow> Undefined | c # _ \<Rightarrow> Str [c])"
| "get_first (Obj kvs) = Inr (own_prop (Obj kvs) ''0'')"
| "get_first v = Inr Undefined"

text \<open>
  \<^verbatim>\<open>String(v)\<close>, the conversion a template literal applies to \<^verbatim>\<open>${v}\<close>. An array is
  joined with commas, \<^verbatim>\<open>null\<close> and \<^verbatim>\<open>undefined\<close> elements rendering as empty. A parsed
  object has no callable property, so one with an own \<^verbatim>\<open>toString\<close> property cannot
  be converted and a TypeError is thrown; every other object is
  \<^verbatim>\<open>[object Object]\<close>.
\<close>

fun to_js_string :: "jsval \<Rightarrow> string completion"
  and join_elems :: "jsval list \<Rightarrow> string completion" where
  "to_js_string Undefined = Inr ''undefined''"
| "to_js_string Null = Inr ''null''"
| "to_js_string (Bool b) = Inr (if b then ''true'' else ''false'')"
| "to_js_string (Num r) = Inr r"
| "to_js_string (Str s) = Inr s"
| "to_js_string (Arr xs) = join_elems xs"
| "to_js_string (Obj kvs) =
     (if ''toString'' \<in> fst ` set kvs
      then Inl ''Cannot convert object to primitive value''
      else Inr ''[object Object]'')"
| "join_elems [] = Inr []"
| "join_elems (x # xs) =
     (case (if nullish x then Inr [] else to_js_string x) of
        Inl m \<Rightarrow> Inl m
      | Inr s \<Rightarrow>
          (if xs = [] then Inr s
           else (case join_elems xs of
                   Inl m \<Rightarrow> Inl m
                 | Inr r \<Rightarrow> Inr (s @ '','' @ r))))"

text \<open>\<^verbatim>\<open>String.prototype.trim\<close> on the ASCII white space and line terminators.\<close>

definition is_space :: "char \<Rightarrow> bool" where
  "is_space c = (c \<in> {CHR 0x20, CHR 0x09, CHR 0x0A, CHR 0x0B, CHR 0x0C, CHR 0x0D})"

definition trim :: "string \<Rightarrow> string" where
  "trim s = rev (dropWhile is_space (rev (dropWhile is_space s)))"

text \<open>The decimal rendering of a non-negative integer, as for \<^verbatim>\<open>${Date.now()}\<close>.\<close>

definition digit_char :: "nat \<Rightarrow> char" where
  "digit_char d = ''0123456789'' ! d"

function show_nat :: "nat \<Rightarrow> string" where
  "show_nat n = (if n < 10 then [digit_char n] else show_nat (n div 10) @ [digit_char (n mod 10)])"
  by pat_completeness auto
termination
  by (relation "measure id") auto

declare show_nat.simps [simp del]

text \<open>
  An integer-like property name (an array index): the canonical decimal rendering of a
  number up to \<open>2\<^sup>3\<^sup>2 - 2\<close>. An object enumerates such names first, in ascending
  numeric order, and its other names after them in insertion order.
\<close>

definition is_digit :: "char \<Rightarrow> bool" where
  "is_digit c = (c \<in> set ''0123456789'')"

definition digit_value :: "char \<Rightarrow> nat" where
  "digit_value c = length (takeWhile (\<lambda>d. d \<noteq> c) ''0123456789'')"

definition parse_nat :: "string \<Rightarrow> nat" where
  "parse_nat k = foldl (\<lambda>n c. 10 * n + digit_value c) 0 k"

definition is_index :: "string \<Rightarrow> bool" where
  "is_index k =
     (list_all is_digit k \<and> show_nat (parse_nat k) = k \<and> parse_nat k \<le> 4294967294)"

definition enumeration_order :: "(string \<times> jsval) list \<Rightarrow> (string \<times> jsval) list" where
  "enumeration_order kvs =
     sort_key (\<lambda>kv. parse_nat (fst kv)) (filter (\<lambda>kv. is_index (fst kv)) kvs)
       @ filter (\<lambda>kv. \<not> is_index (fst kv)) kvs"


text \<open>
  Strict equality \<^verbatim>\<open>a === b\<close>. Arrays and objects are compared by reference; the two
  operands the source compares never share one (one is read out of freshly parsed
  output, the other is the caller's argument), so they are unequal.
\<close>

fun strict_equals :: "jsval \<Rightarrow> jsval \<Rightarrow> bool" where
  "strict_equals Undefined Undefined = True"
| "strict_equals Null Null = True"
| "strict_equals (Bool a) (Bool b) = (a = b)"
| "strict_equals (Num a) (Num b) = (a = b \<and> a \<noteq> ''NaN'')"
| "strict_equals (Str a) (Str b) = (a = b)"
| "strict_equals a b = False"

section \<open>The outside world\<close>

text \<open>
  Every outbound call is appended to a log. What the outside answers is a parameter:
  it may depend on the command and on everything called before. \<open>exec_reply\<close> is the
  promisified \<^verbatim>\<open>child_process.exec\<close> (rejecting with an error message or resolving
  with the standard output), \<open>http_reply\<close> is \<^verbatim>\<open>axios.post\<close> (the response object),
  \<open>repo_reply\<close> is \<^verbatim>\<open>octokit.repos.createUsingTemplate\<close>, \<open>JSON_parse\<close> is the
  built-in parser, and the remaining fields are the variables read from
  \<^verbatim>\<open>process.env\<close>.
\<close>

datatype call =
    Exec string
  | HttpPost string jsval jsval
  | CreateRepo jsval

record env =
  exec_reply :: "call list \<Rightarrow> string \<Rightarrow> string completion"
  http_reply :: "call list \<Rightarrow> string \<Rightarrow> jsval \<Rightarrow> jsval \<Rightarrow> jsval completion"
  repo_reply :: "call list \<Rightarrow> jsval \<Rightarrow> jsval completion"
  JSON_parse :: "string \<Rightarrow> jsval completion"
  ANTHROPIC_API_KEY :: jsval
  GITHUB_TEMPLATE_OWNER :: jsval
  GITHUB_ORG :: jsval

definition execAsync :: "env \<Rightarrow> call list \<Rightarrow> string \<Rightarrow> string completion \<times> call list" where
  "execAsync E log command = (exec_reply E log command, log @ [Exec command])"

text \<open>
  \<^verbatim>\<open>try { body } catch (error) { handler(error.message) }\<close>: the calls the body made
  stay made.
\<close>

definition try_catch ::
  "'a completion \<times> call list \<Rightarrow> (string \<Rightarrow> 'a completion) \<Rightarrow> 'a completion \<times> call list" where
  "try_catch body handler =
     (case fst body of Inl m \<Rightarrow> (handler m, snd body) | Inr v \<Rightarrow> (Inr v, snd body))"

section \<open>The workspace manager: class DevPodManager\<close>

text \<open>
  The probe \<^verbatim>\<open>await execAsync('which devpod').catch(() => null)\<close> followed by the
  test \<^verbatim>\<open>devpodCheck && devpodCheck.stdout.trim()\<close>.
\<close>

definition devpod_available :: "string completion \<Rightarrow> bool" where
  "devpod_available devpodCheck =
     (case devpodCheck of Inl m \<Rightarrow> False | Inr out \<Rightarrow> trim out \<noteq> [])"

definition createWorkspace_try ::
  "env \<Rightarrow> call list \<Rightarrow> jsval \<Rightarrow> jsval \<Rightarrow> jsval completion \<times> call list" where
  "createWorkspace_try E log workspaceId repoUrl =
     (let (devpodCheck, log1) = execAsync E log ''which devpod'' in
      if devpod_available devpodCheck then
        (case to_js_string repoUrl of
           Inl m \<Rightarrow> (Inl m, log1)
         | Inr r \<Rightarrow>
        (case to_js_string workspaceId of
           Inl m \<Rightarrow> (Inl m, log1)
         | Inr w \<Rightarrow>
        (let (result, log2) =
               execAsync E log1 (''devpod up '' @ r @ '' --id '' @ w @ '' --provider docker'') in
         case result of
           Inl m \<Rightarrow> (Inl m, log2)
         | Inr out \<Rightarrow>
             (Inr (Obj [(''success'', Bool True), (''workspaceId'', workspaceId),
                        (''status'', Str ''created''), (''output'', Str out),
                        (''mode'', Str ''devpod'')]), log2))))
      else
        (Inr (Obj [(''success'', Bool True), (''workspaceId'', workspaceId),
                   (''status'', Str ''created''),
                   (''output'', Str ''Workspace created in mock mode (DevPod not available)''),
                   (''mode'', Str ''mock'')]), log1))"

definition createWorkspace ::
  "env \<Rightarrow> call list \<Rightarrow> jsval \<Rightarrow> jsval \<Rightarrow> jsval completion \<times> call list" where
  "createWorkspace E log workspaceId repoUrl =
     try_catch (createWorkspace_try E log workspaceId repoUrl)
       (\<lambda>m. Inr (Obj [(''success'', Bool False), (''error'', Str m)]))"

text \<open>\<^verbatim>\<open>message.replace(/'/g, "'\\''")\<close>: only a string has the method.\<close>

definition escape_quotes :: "string \<Rightarrow> string" where
  "escape_quotes s =
     concat (map (\<lambda>c. if c = squote then [squote, backslash, squote, squote] else [c]) s)"

fun replace_quotes :: "jsval \<Rightarrow> string completion" where
  "replace_quotes (Str s) = Inr (escape_quotes s)"
| "replace_quotes Undefined = Inl ''Cannot read properties of undefined (reading replace)''"
| "replace_quotes Null = Inl ''Cannot read properties of null (reading replace)''"
| "replace_quotes v = Inl ''message.replace is not a function''"

definition devpod_ssh_command :: "string \<Rightarrow> string \<Rightarrow> string" where
  "devpod_ssh_command w escapedMessage =
     ''devpod ssh '' @ w @ '' --command '' @ [dquote]
       @ ''cd /workspace && python3 .devcontainer/claude-handler.py '' @ [squote]
       @ escapedMessage @ [squote, dquote]"

definition prompt :: "string \<Rightarrow> string" where
  "prompt m =
     ''You are an AI assistant helping build a React application. The user said: ''
       @ [dquote] @ m @ [dquote] @ ''. '' @ [newline]
       @ replicate 12 (CHR '' '') @ [newline]
       @ replicate 12 (CHR '' '')
       @ ''Provide helpful guidance for building their React app. Keep responses concise and practical.''"

definition messages_url :: string where
  "messages_url = ''https://api.anthropic.com/v1/messages''"

definition request_body :: "string \<Rightarrow> jsval" where
  "request_body m =
     Obj [(''model'', Str ''claude-3-5-sonnet-20241022''),
          (''max_tokens'', Num ''4000''),
          (''messages'', Arr [Obj [(''role'', Str ''user''), (''content'', Str (prompt m))]])]"

definition request_config :: "env \<Rightarrow> jsval" where
  "request_config E =
     Obj [(''headers'',
           Obj [(''x-api-key'', ANTHROPIC_API_KEY E),
                (''anthropic-version'', Str ''2023-06-01''),
                (''content-type'', Str ''application/json'')])]"

text \<open>\<^verbatim>\<open>response.data.content[0].text\<close>\<close>

definition response_text :: "jsval \<Rightarrow> jsval completion" where
  "response_text response =
     (case get_prop response ''data'' of
        Inl m \<Rightarrow> Inl m
      | Inr d \<Rightarrow>
     (case get_prop d ''content'' of
        Inl m \<Rightarrow> Inl m
      | Inr c \<Rightarrow>
     (case get_first c of
        Inl m \<Rightarrow> Inl m
      | Inr b \<Rightarrow> get_prop b ''text'')))"

definition executeInWorkspace_try ::
  "env \<Rightarrow> call list \<Rightarrow> jsval \<Rightarrow> jsval \<Rightarrow> jsval completion \<times> call list" where
  "executeInWorkspace_try E log workspaceId message =
     (let (devpodCheck, log1) = execAsync E log ''which devpod'' in
      if devpod_available devpodCheck then
        (case replace_quotes message of
           Inl m \<Rightarrow> (Inl m, log1)
         | Inr escapedMessage \<Rightarrow>
        (case to_js_string workspaceId of
           Inl m \<Rightarrow> (Inl m, log1)
         | Inr w \<Rightarrow>
        (let (result, log2) = execAsync E log1 (devpod_ssh_command w escapedMessage) in
         case result of
           Inl m \<Rightarrow> (Inl m, log2)
         | Inr out \<Rightarrow> (JSON_parse E out, log2))))
      else
        (case to_js_string message of
           Inl m \<Rightarrow> (Inl m, log1)
         | Inr ms \<Rightarrow>
        (let body = request_body ms;
             config = request_config E;
             log2 = log1 @ [HttpPost messages_url body config] in
         case http_reply E log1 messages_url body config of
           Inl m \<Rightarrow> (Inl m, log2)
         | Inr response \<Rightarrow>
             (case response_text response of
                Inl m \<Rightarrow> (Inl m, log2)
              | Inr t \<Rightarrow>
                  (Inr (Obj [(''success'', Bool True), (''response'', t),
                             (''context_used'', Bool True), (''workspace_updated'', Bool True),
                             (''mode'', Str ''direct-api'')]), log2)))))"

definition execution_failure :: "string \<Rightarrow> jsval" where
  "execution_failure m =
     Obj [(''success'', Bool False), (''error'', Str m),
          (''response'', Str ''I encountered an error processing your request.'')]"

definition executeInWorkspace ::
  "env \<Rightarrow> call list \<Rightarrow> jsval \<Rightarrow> jsval \<Rightarrow> jsval completion \<times> call list" where
  "executeInWorkspace E log workspaceId message =
     try_catch (executeInWorkspace_try E log workspaceId message)
       (\<lambda>m. Inr (execution_failure m))"

text \<open>\<^verbatim>\<open>workspaces.find(w => w.id === workspaceId)\<close>: only an array has the method.\<close>

fun find_by_id :: "jsval list \<Rightarrow> jsval \<Rightarrow> jsval completion" where
  "find_by_id [] workspaceId = Inr Undefined"
| "find_by_id (w # ws) workspaceId =
     (case get_prop w ''id'' of
        Inl m \<Rightarrow> Inl m
      | Inr i \<Rightarrow> if strict_equals i workspaceId then Inr w else find_by_id ws workspaceId)"

fun array_find :: "jsval \<Rightarrow> jsval \<Rightarrow> jsval completion" where
  "array_find (Arr ws) workspaceId = find_by_id ws workspaceId"
| "array_find Undefined workspaceId = Inl ''Cannot read properties of undefined (reading find)''"
| "array_find Null workspaceId = Inl ''Cannot read properties of null (reading find)''"
| "array_find v workspaceId = Inl ''workspaces.find is not a function''"

definition getWorkspaceStatus_try ::
  "env \<Rightarrow> call list \<Rightarrow> jsval \<Rightarrow> jsval completion \<times> call list" where
  "getWorkspaceStatus_try E log workspaceId =
     (let (result, log1) = execAsync E log ''devpod list --output json'' in
      case result of
        Inl m \<Rightarrow> (Inl m, log1)
      | Inr out \<Rightarrow>
          (case JSON_parse E out of
             Inl m \<Rightarrow> (Inl m, log1)
           | Inr workspaces \<Rightarrow>
               (case array_find workspaces workspaceId of
                  Inl m \<Rightarrow> (Inl m, log1)
                | Inr workspace \<Rightarrow>
                    (Inr (if truthy workspace then workspace
                          else Obj [(''status'', Str ''not_found'')]), log1))))"

definition getWorkspaceStatus ::
  "env \<Rightarrow> call list \<Rightarrow> jsval \<Rightarrow> jsval completion \<times> call list" where
  "getWorkspaceStatus E log workspaceId =
     try_catch (getWorkspaceStatus_try E log workspaceId)
       (\<lambda>m. Inr (Obj [(''status'', Str ''error''), (''error'', Str m)]))"

definition run_devpod ::
  "env \<Rightarrow> call list \<Rightarrow> string \<Rightarrow> jsval \<Rightarrow> string \<Rightarrow> jsval completion \<times> call list" where
  "run_devpod E log before workspaceId after =
     (case to_js_string workspaceId of
        Inl m \<Rightarrow> (Inl m, log)
      | Inr w \<Rightarrow>
          (let (result, log1) = execAsync E log (before @ w @ after) in
           case result of
             Inl m \<Rightarrow> (Inl m, log1)
           | Inr out \<Rightarrow> (Inr (Obj [(''success'', Bool True)]), log1)))"

definition stopWorkspace :: "env \<Rightarrow> call list \<Rightarrow> jsval \<Rightarrow> jsval completion \<times> call list" where
  "stopWorkspace E log workspaceId =
     try_catch (run_devpod E log ''devpod stop '' workspaceId [])
       (\<lambda>m. Inr (Obj [(''success'', Bool False), (''error'', Str m)]))"

definition deleteWorkspace :: "env \<Rightarrow> call list \<Rightarrow> jsval \<Rightarrow> jsval completion \<times> call list" where
  "deleteWorkspace E log workspaceId =
     try_catch (run_devpod E log ''devpod delete '' workspaceId '' --force'')
       (\<lambda>m. Inr (Obj [(''success'', Bool False), (''error'', Str m)]))"


section \<open>The HTTP routes\<close>

text \<open>
  A route answers with a status code and a JSON body. The model starts where the
  route's handler starts: the body has been parsed by \<^verbatim>\<open>express.json()\<close> and the
  request has passed the rate limiters mounted in front of the handler.
  \<^verbatim>\<open>const { k, ... } = v\<close> throws when \<open>v\<close> is \<^verbatim>\<open>null\<close> or \<^verbatim>\<open>undefined\<close>.
\<close>

type_synonym http_response = "nat \<times> jsval"

definition destructure :: "jsval \<Rightarrow> string \<Rightarrow> jsval completion" where
  "destructure v k =
     (if nullish v
      then Inl (''Cannot destructure property '' @ [squote] @ k @ [squote] @ '' as it is ''
                @ (if v = Null then ''null'' else ''undefined'') @ ''.'')
      else Inr (own_prop v k))"

definition route_catch ::
  "http_response completion \<times> call list \<Rightarrow> (string \<Rightarrow> http_response)
     \<Rightarrow> http_response \<times> call list" where
  "route_catch body handler =
     (case fst body of Inl m \<Rightarrow> (handler m, snd body) | Inr r \<Rightarrow> (r, snd body))"

text \<open>\<^verbatim>\<open>app.post('/api/workspaces/:workspaceId/chat', ...)\<close>\<close>

definition chat_route_try ::
  "env \<Rightarrow> call list \<Rightarrow> string \<Rightarrow> jsval \<Rightarrow> http_response completion \<times> call list" where
  "chat_route_try E log workspaceId body =
     (case destructure body ''message'' of
        Inl m \<Rightarrow> (Inl m, log)
      | Inr message \<Rightarrow>
          if \<not> truthy message
          then (Inr (400, Obj [(''success'', Bool False), (''error'', Str ''message is required'')]),
                log)
          else
            (let (result, log1) = executeInWorkspace E log (Str workspaceId) message in
             case result of
               Inl m \<Rightarrow> (Inl m, log1)
             | Inr r \<Rightarrow> (Inr (200, r), log1)))"

definition chat_route ::
  "env \<Rightarrow> call list \<Rightarrow> string \<Rightarrow> jsval \<Rightarrow> http_response \<times> call list" where
  "chat_route E log workspaceId body =
     route_catch (chat_route_try E log workspaceId body)
       (\<lambda>m. (500, Obj [(''success'', Bool False), (''error'', Str m),
                        (''response'', Str ''I encountered an error. Please try again.'')]))"

text \<open>
  \<^verbatim>\<open>app.post('/api/workspaces/create', ...)\<close>; \<open>now\<close> is what \<^verbatim>\<open>Date.now()\<close> returns
  when the handler builds the identifier.
\<close>

definition new_workspace_id :: "jsval \<Rightarrow> nat \<Rightarrow> string completion" where
  "new_workspace_id userId now =
     (case to_js_string userId of
        Inl m \<Rightarrow> Inl m
      | Inr u \<Rightarrow> Inr (''workspace-'' @ u @ ''-'' @ show_nat now))"

definition template_params :: "env \<Rightarrow> string \<Rightarrow> string \<Rightarrow> jsval" where
  "template_params E workspaceId p =
     Obj [(''template_owner'', GITHUB_TEMPLATE_OWNER E),
          (''template_repo'', Str ''ai-workspace-template''),
          (''owner'', GITHUB_ORG E),
          (''name'', Str workspaceId),
          (''description'', Str (''AI Development Workspace: '' @ p)),
          (''private'', Bool False)]"

definition repo_data_prop :: "jsval \<Rightarrow> string \<Rightarrow> jsval completion" where
  "repo_data_prop repo k =
     (case get_prop repo ''data'' of Inl m \<Rightarrow> Inl m | Inr d \<Rightarrow> get_prop d k)"

text \<open>\<^verbatim>\<open>new Error(x).message\<close>\<close>

definition new_error :: "jsval \<Rightarrow> string" where
  "new_error x =
     (if x = Undefined then []
      else (case to_js_string x of Inl m \<Rightarrow> m | Inr s \<Rightarrow> s))"

definition create_route_try ::
  "env \<Rightarrow> call list \<Rightarrow> jsval \<Rightarrow> nat \<Rightarrow> http_response completion \<times> call list" where
  "create_route_try E log body now =
     (case destructure body ''userId'' of
        Inl m \<Rightarrow> (Inl m, log)
      | Inr userId \<Rightarrow>
     (let projectName = own_prop body ''projectName'' in
      if \<not> truthy userId \<or> \<not> truthy projectName
      then (Inr (400, Obj [(''success'', Bool False),
                           (''error'', Str ''userId and projectName are required'')]), log)
      else
     (case new_workspace_id userId now of
        Inl m \<Rightarrow> (Inl m, log)
      | Inr workspaceId \<Rightarrow>
     (case to_js_string projectName of
        Inl m \<Rightarrow> (Inl m, log)
      | Inr p \<Rightarrow>
     (let params = template_params E workspaceId p;
          log1 = log @ [CreateRepo params] in
      case repo_reply E log params of
        Inl m \<Rightarrow> (Inl m, log1)
      | Inr repo \<Rightarrow>
     (case repo_data_prop repo ''clone_url'' of
        Inl m \<Rightarrow> (Inl m, log1)
      | Inr cloneUrl \<Rightarrow>
     (let (created, log2) = createWorkspace E log1 (Str workspaceId) cloneUrl in
      case created of
        Inl m \<Rightarrow> (Inl m, log2)
      | Inr workspace \<Rightarrow>
     (case get_prop workspace ''success'' of
        Inl m \<Rightarrow> (Inl m, log2)
      | Inr ok \<Rightarrow>
          if \<not> truthy ok then (Inl (new_error (own_prop workspace ''error'')), log2)
          else
            (case repo_data_prop repo ''html_url'' of
               Inl m \<Rightarrow> (Inl m, log2)
             | Inr htmlUrl \<Rightarrow>
                 (Inr (200, Obj [(''success'', Bool True), (''workspaceId'', Str workspaceId),
                                 (''repositoryUrl'', htmlUrl), (''cloneUrl'', cloneUrl),
                                 (''workspace'', workspace)]), log2))))))))))"

definition create_route ::
  "env \<Rightarrow> call list \<Rightarrow> jsval \<Rightarrow> nat \<Rightarrow> http_response \<times> call list" where
  "create_route E log body now =
     route_catch (create_route_try E log body now)
       (\<lambda>m. (500, Obj [(''success'', Bool False), (''error'', Str m)]))"

text \<open>
  Creation requests handled one after the other, each with the clock reading of its
  handler; \<open>created_names\<close> lists the repository names that were requested, which
  are the workspace identifiers the handlers built.
\<close>

fun serve_creates :: "env \<Rightarrow> call list \<Rightarrow> (jsval \<times> nat) list \<Rightarrow> call list" where
  "serve_creates E log [] = log"
| "serve_creates E log ((body, now) # requests) =
     serve_creates E (snd (create_route E log body now)) requests"

fun created_names :: "call list \<Rightarrow> jsval list" where
  "created_names [] = []"
| "created_names (CreateRepo params # calls) = own_prop params ''name'' # created_names calls"
| "created_names (c # calls) = created_names calls"

section \<open>The socket relay\<close>

text \<open>
  Connections are numbered; every connection has its own closure variable
  \<^verbatim>\<open>connectionWorkspaceId\<close>, initially \<^verbatim>\<open>null\<close>, and the list of the payloads sent on
  it. \<^verbatim>\<open>activeConnections\<close> is a \<^verbatim>\<open>Map\<close>: a primitive key is looked up by value, an
  array or object by reference, and every parsed message is a new reference.
  A handler runs to its end before the next event is taken.
\<close>

datatype map_key = Prim jsval | Ref nat

fun key_truthy :: "map_key \<Rightarrow> bool" where
  "key_truthy (Prim v) = truthy v"
| "key_truthy (Ref n) = True"

fun as_key :: "jsval \<Rightarrow> nat \<Rightarrow> map_key" where
  "as_key (Arr xs) n = Ref n"
| "as_key (Obj kvs) n = Ref n"
| "as_key v n = Prim v"

record relay =
  activeConnections :: "(map_key \<times> nat) list"
  connectionWorkspaceId :: "nat \<Rightarrow> map_key"
  sent :: "nat \<Rightarrow> jsval list"
  outbound :: "call list"
  fresh :: nat

definition relay_start :: relay where
  "relay_start =
     \<lparr>activeConnections = [], connectionWorkspaceId = (\<lambda>ws. Prim Null),
      sent = (\<lambda>ws. []), outbound = [], fresh = 0\<rparr>"

text \<open>
  \<^verbatim>\<open>JSON.stringify(v)\<close>, given as the value the receiver parses from the text: a
  number that is not finite becomes \<^verbatim>\<open>null\<close>, an \<^verbatim>\<open>undefined\<close> array element
  becomes \<^verbatim>\<open>null\<close>, a property whose value is \<^verbatim>\<open>undefined\<close> is left out, and the
  properties of an object appear in its enumeration order.
\<close>

definition non_finite :: "string \<Rightarrow> bool" where
  "non_finite r = (r \<in> {''Infinity'', ''-Infinity'', ''NaN''})"

fun json_value :: "jsval \<Rightarrow> jsval"
  and json_elems :: "jsval list \<Rightarrow> jsval list"
  and json_props :: "(string \<times> jsval) list \<Rightarrow> (string \<times> jsval) list" where
  "json_value Undefined = Undefined"
| "json_value Null = Null"
| "json_value (Bool b) = Bool b"
| "json_value (Num r) = (if non_finite r then Null else Num r)"
| "json_value (Str s) = Str s"
| "json_value (Arr xs) = Arr (json_elems xs)"
| "json_value (Obj kvs) = Obj (enumeration_order (json_props kvs))"
| "json_elems [] = []"
| "json_elems (x # xs) = (if x = Undefined then Null else json_value x) # json_elems xs"
| "json_props [] = []"
| "json_props ((k, v) # kvs) =
     (if v = Undefined then json_props kvs else (k, json_value v) # json_props kvs)"

text \<open>\<^verbatim>\<open>ws.send(JSON.stringify({...}))\<close>: what the client receives.\<close>

definition wire :: "(string \<times> jsval) list \<Rightarrow> jsval" where
  "wire props = json_value (Obj props)"

text \<open>The values that the serialisation hands over unchanged at top level.\<close>

fun plain :: "jsval \<Rightarrow> bool" where
  "plain Null = True"
| "plain (Bool b) = True"
| "plain (Num r) = (\<not> non_finite r)"
| "plain (Str s) = True"
| "plain v = False"

definition ws_send :: "nat \<Rightarrow> (string \<times> jsval) list \<Rightarrow> relay \<Rightarrow> relay" where
  "ws_send ws props st = st\<lparr>sent := (sent st)(ws := sent st ws @ [wire props])\<rparr>"

text \<open>The own enumerable properties that \<^verbatim>\<open>...result\<close> copies into an object literal.\<close>

fun spread_props :: "jsval \<Rightarrow> (string \<times> jsval) list" where
  "spread_props (Obj kvs) = kvs"
| "spread_props (Arr xs) = zip (map show_nat [0..<length xs]) xs"
| "spread_props (Str s) = zip (map show_nat [0..<length s]) (map (\<lambda>c. Str [c]) s)"
| "spread_props v = []"

definition assign :: "(string \<times> jsval) list \<Rightarrow> (string \<times> jsval) list \<Rightarrow> (string \<times> jsval) list" where
  "assign props target = fold (\<lambda>(k, v). AList.update k v) props target"

definition response_payload :: "jsval \<Rightarrow> string \<Rightarrow> (string \<times> jsval) list" where
  "response_payload result timestamp =
     AList.update ''timestamp'' (Str timestamp)
       (assign (spread_props result) [(''type'', Str ''response'')])"

definition ws_init :: "nat \<Rightarrow> jsval \<Rightarrow> relay \<Rightarrow> relay" where
  "ws_init ws workspaceId st =
     (let key = as_key workspaceId (fresh st) in
      ws_send ws [(''type'', Str ''connected''), (''workspaceId'', workspaceId)]
        (st\<lparr>connectionWorkspaceId := (connectionWorkspaceId st)(ws := key),
            activeConnections := AList.update key ws (activeConnections st),
            fresh := Suc (fresh st)\<rparr>))"

definition ws_error :: "nat \<Rightarrow> string \<Rightarrow> relay \<Rightarrow> relay" where
  "ws_error ws m st = ws_send ws [(''type'', Str ''error''), (''error'', Str m)] st"

definition ws_chat :: "env \<Rightarrow> nat \<Rightarrow> jsval \<Rightarrow> jsval \<Rightarrow> string \<Rightarrow> relay \<Rightarrow> relay" where
  "ws_chat E ws workspaceId message timestamp st =
     (let st1 = ws_send ws [(''type'', Str ''typing''), (''status'', Bool True)] st;
          (result, log1) = executeInWorkspace E (outbound st1) workspaceId message;
          st2 = st1\<lparr>outbound := log1\<rparr> in
      case result of
        Inl m \<Rightarrow> ws_error ws m st2
      | Inr r \<Rightarrow>
          ws_send ws [(''type'', Str ''typing''), (''status'', Bool False)]
            (ws_send ws (response_payload r timestamp) st2))"

text \<open>
  \<^verbatim>\<open>ws.on('message', async (data) => ...)\<close> on connection \<open>ws\<close>; \<open>timestamp\<close> is
  what \<^verbatim>\<open>new Date().toISOString()\<close> returns when the response is built.
\<close>

definition ws_message :: "env \<Rightarrow> nat \<Rightarrow> string \<Rightarrow> string \<Rightarrow> relay \<Rightarrow> relay" where
  "ws_message E ws data timestamp st =
     (case JSON_parse E data of
        Inl m \<Rightarrow> ws_error ws m st
      | Inr parsed \<Rightarrow>
          (case destructure parsed ''type'' of
             Inl m \<Rightarrow> ws_error ws m st
           | Inr type \<Rightarrow>
               (let workspaceId = own_prop parsed ''workspaceId'';
                    message = own_prop parsed ''message'';
                    st1 = (if strict_equals type (Str ''init'')
                           then ws_init ws workspaceId st else st) in
                if strict_equals type (Str ''chat'') \<and> truthy workspaceId \<and> truthy message
                then ws_chat E ws workspaceId message timestamp st1
                else st1)))"

text \<open>\<^verbatim>\<open>ws.on('close', ...)\<close>\<close>

definition ws_close :: "nat \<Rightarrow> relay \<Rightarrow> relay" where
  "ws_close ws st =
     (if key_truthy (connectionWorkspaceId st ws)
      then st\<lparr>activeConnections :=
                AList.delete (connectionWorkspaceId st ws) (activeConnections st)\<rparr>
      else st)"

datatype event = Message nat string string | Close nat

fun handle :: "env \<Rightarrow> relay \<Rightarrow> event \<Rightarrow> relay" where
  "handle E st (Message ws data timestamp) = ws_message E ws data timestamp st"
| "handle E st (Close ws) = ws_close ws st"

definition run :: "env \<Rightarrow> relay \<Rightarrow> event list \<Rightarrow> relay" where
  "run E st events = foldl (handle E) st events"


text \<open>The \<^verbatim>\<open>type\<close> of a payload, and the connection an event belongs to.\<close>

definition payload_type :: "jsval \<Rightarrow> jsval" where
  "payload_type p = own_prop p ''type''"

fun event_socket :: "event \<Rightarrow> nat" where
  "event_socket (Message ws data timestamp) = ws"
| "event_socket (Close ws) = ws"

text \<open>The two kinds of outbound call a chat turn can make.\<close>

fun is_subprocess :: "call \<Rightarrow> bool" where
  "is_subprocess (Exec command) = True"
| "is_subprocess c = False"

fun is_http :: "call \<Rightarrow> bool" where
  "is_http (HttpPost url body config) = True"
| "is_http c = False"

section \<open>Sample inputs and environments\<close>

text \<open>
  Concrete client messages, the parser restricted to them, and three environments: one
  where the provisioning tool is installed and answers, one where it is not installed
  and the hosted endpoint answers, and one where the tool is installed and every
  further call fails.
\<close>

definition init_w1 :: string where
  \<open>init_w1 = ''{"type":"init","workspaceId":"w1"}''\<close>

definition init_huge :: string where
  \<open>init_huge = ''{"type":"init","workspaceId":1e999}''\<close>

definition init_w2 :: string where
  \<open>init_w2 = ''{"type":"init","workspaceId":"w2"}''\<close>

definition chat_w1 :: string where
  \<open>chat_w1 = ''{"type":"chat","workspaceId":"w1","message":"hi"}''\<close>

definition chat_empty :: string where
  \<open>chat_empty = ''{"type":"chat","workspaceId":"w1","message":""}''\<close>

definition malformed :: string where
  \<open>malformed = ''{not json''\<close>

definition handler_output :: string where
  \<open>handler_output = ''{"success":true,"response":"done"}''\<close>

definition sample_parse :: "string \<Rightarrow> jsval completion" where
  "sample_parse s =
     (if s = init_w1 then Inr (Obj [(''type'', Str ''init''), (''workspaceId'', Str ''w1'')])
      else if s = init_w2 then Inr (Obj [(''type'', Str ''init''), (''workspaceId'', Str ''w2'')])
      else if s = init_huge
        then Inr (Obj [(''type'', Str ''init''), (''workspaceId'', Num ''Infinity'')])
      else if s = chat_w1
        then Inr (Obj [(''type'', Str ''chat''), (''workspaceId'', Str ''w1''),
                       (''message'', Str ''hi'')])
      else if s = chat_empty
        then Inr (Obj [(''type'', Str ''chat''), (''workspaceId'', Str ''w1''),
                       (''message'', Str [])])
      else if s = handler_output
        then Inr (Obj [(''success'', Bool True), (''response'', Str ''done'')])
      else Inl ''Unexpected token n in JSON at position 1'')"

definition sample_repo :: jsval where
  "sample_repo =
     Obj [(''data'', Obj [(''clone_url'', Str ''https://github.com/org/repo.git''),
                         (''html_url'', Str ''https://github.com/org/repo'')])]"

definition devpod_env :: env where
  "devpod_env =
     \<lparr>exec_reply = (\<lambda>log command.
        if command = ''which devpod'' then Inr (''/usr/local/bin/devpod'' @ [newline])
        else Inr handler_output),
      http_reply = (\<lambda>log url body config. Inl ''Network Error''),
      repo_reply = (\<lambda>log params. Inr sample_repo),
      JSON_parse = sample_parse,
      ANTHROPIC_API_KEY = Undefined,
      GITHUB_TEMPLATE_OWNER = Str ''owner'',
      GITHUB_ORG = Str ''org''\<rparr>"

definition direct_env :: env where
  "direct_env =
     \<lparr>exec_reply = (\<lambda>log command. Inl ''Command failed''),
      http_reply = (\<lambda>log url body config.
        Inr (Obj [(''data'',
               Obj [(''content'',
                 Arr [Obj [(''type'', Str ''text''), (''text'', Str ''Use a component.'')]])])])),
      repo_reply = (\<lambda>log params. Inr sample_repo),
      JSON_parse = sample_parse,
      ANTHROPIC_API_KEY = Str ''key'',
      GITHUB_TEMPLATE_OWNER = Str ''owner'',
      GITHUB_ORG = Str ''org''\<rparr>"

definition broken_env :: env where
  "broken_env =
     \<lparr>exec_reply = (\<lambda>log command.
        if command = ''which devpod'' then Inr (''/usr/local/bin/devpod'' @ [newline])
        else Inl ''Command failed''),
      http_reply = (\<lambda>log url body config. Inl ''Network Error''),
      repo_reply = (\<lambda>log params. Inl ''Bad credentials''),
      JSON_parse = sample_parse,
      ANTHROPIC_API_KEY = Undefined,
      GITHUB_TEMPLATE_OWNER = Str ''owner'',
      GITHUB_ORG = Str ''org''\<rparr>"

definition offline_env :: env where
  "offline_env =
     \<lparr>exec_reply = (\<lambda>log command. Inl ''Command failed''),
      http_reply = (\<lambda>log url body config. Inl ''Network Error''),
      repo_reply = (\<lambda>log params. Inl ''Bad credentials''),
      JSON_parse = sample_parse,
      ANTHROPIC_API_KEY = Undefined,
      GITHUB_TEMPLATE_OWNER = Str ''owner'',
      GITHUB_ORG = Str ''org''\<rparr>"


definition sample_create :: jsval where
  "sample_create = Obj [(''userId'', Str ''u1''), (''projectName'', Str ''demo'')]"

definition two_inits :: relay where
  "two_inits = run direct_env relay_start
     [Message 3 init_w1 ''2025-06-16T19:04:00.000Z'',
      Message 5 init_w1 ''2025-06-16T19:04:01.000Z'']"

section \<open>Basic facts\<close>

lemma strict_equals_Str [simp]: "strict_equals v (Str s) = (v = Str s)"
  by (cases v) auto

lemma try_catch_returns:
  "(\<And>m. \<exists>v. handler m = Inr v) \<Longrightarrow> \<exists>v. fst (try_catch body handler) = Inr v"
  by (auto simp: try_catch_def split: sum.splits)

lemma devpod_env_available: "devpod_available (exec_reply devpod_env log ''which devpod'')"
  by (simp add: devpod_env_def devpod_available_def trim_def is_space_def)

lemma broken_env_available: "devpod_available (exec_reply broken_env log ''which devpod'')"
  by (simp add: broken_env_def devpod_available_def trim_def is_space_def)

lemma direct_env_unavailable: "\<not> devpod_available (exec_reply direct_env log ''which devpod'')"
  by (simp add: direct_env_def devpod_available_def)

lemma offline_env_unavailable: "\<not> devpod_available (exec_reply offline_env log ''which devpod'')"
  by (simp add: offline_env_def devpod_available_def)

lemma JSON_parse_envs [simp]:
  "JSON_parse devpod_env = sample_parse" "JSON_parse direct_env = sample_parse"
  "JSON_parse broken_env = sample_parse" "JSON_parse offline_env = sample_parse"
  by (simp_all add: devpod_env_def direct_env_def broken_env_def offline_env_def)

lemma sample_parse_simps:
  "sample_parse init_w1 = Inr (Obj [(''type'', Str ''init''), (''workspaceId'', Str ''w1'')])"
  "sample_parse init_w2 = Inr (Obj [(''type'', Str ''init''), (''workspaceId'', Str ''w2'')])"
  "sample_parse init_huge =
     Inr (Obj [(''type'', Str ''init''), (''workspaceId'', Num ''Infinity'')])"
  "sample_parse chat_w1 = Inr (Obj [(''type'', Str ''chat''), (''workspaceId'', Str ''w1''),
                       (''message'', Str ''hi'')])"
  "sample_parse chat_empty = Inr (Obj [(''type'', Str ''chat''), (''workspaceId'', Str ''w1''),
                       (''message'', Str [])])"
  "sample_parse handler_output = Inr (Obj [(''success'', Bool True), (''response'', Str ''done'')])"
  "sample_parse malformed = Inl ''Unexpected token n in JSON at position 1''"
  by (simp_all add: sample_parse_def init_w1_def init_w2_def init_huge_def chat_w1_def
      chat_empty_def handler_output_def malformed_def)

lemma devpod_env_exec:
  "command \<noteq> ''which devpod'' \<Longrightarrow> exec_reply devpod_env log command = Inr handler_output"
  by (simp add: devpod_env_def)

lemma devpod_env_repo: "repo_reply devpod_env log params = Inr sample_repo"
  by (simp add: devpod_env_def)

lemma broken_env_exec:
  "command \<noteq> ''which devpod'' \<Longrightarrow> exec_reply broken_env log command = Inl ''Command failed''"
  by (simp add: broken_env_def)

lemma direct_env_http:
  "http_reply direct_env log url body config =
     Inr (Obj [(''data'',
            Obj [(''content'',
              Arr [Obj [(''type'', Str ''text''), (''text'', Str ''Use a component.'')]])])])"
  by (simp add: direct_env_def)

lemma offline_env_http: "http_reply offline_env log url body config = Inl ''Network Error''"
  by (simp add: offline_env_def)

section \<open>The workspace manager\<close>

lemma createWorkspace_returns: "\<exists>v. fst (createWorkspace E log workspaceId repoUrl) = Inr v"
  unfolding createWorkspace_def by (rule try_catch_returns) simp

lemma executeInWorkspace_returns:
  "\<exists>v. fst (executeInWorkspace E log workspaceId message) = Inr v"
  unfolding executeInWorkspace_def by (rule try_catch_returns) simp

lemma getWorkspaceStatus_returns: "\<exists>v. fst (getWorkspaceStatus E log workspaceId) = Inr v"
  unfolding getWorkspaceStatus_def by (rule try_catch_returns) simp

lemma stopWorkspace_returns: "\<exists>v. fst (stopWorkspace E log workspaceId) = Inr v"
  unfolding stopWorkspace_def by (rule try_catch_returns) simp

lemma deleteWorkspace_returns: "\<exists>v. fst (deleteWorkspace E log workspaceId) = Inr v"
  unfolding deleteWorkspace_def by (rule try_catch_returns) simp

lemma createWorkspace_extends:
  "createWorkspace E log workspaceId repoUrl = (created, log2) \<Longrightarrow> \<exists>rest. log2 = log @ rest"
  by (auto simp: createWorkspace_def createWorkspace_try_def execAsync_def try_catch_def
      split: sum.splits if_splits)

lemma executeInWorkspace_devpod:
  assumes "devpod_available (exec_reply E log ''which devpod'')"
    and "to_js_string workspaceId = Inr w"
  shows "executeInWorkspace E log workspaceId (Str m) =
     ((case exec_reply E (log @ [Exec ''which devpod''])
              (devpod_ssh_command w (escape_quotes m)) of
         Inl e \<Rightarrow> Inr (execution_failure e)
       | Inr out \<Rightarrow>
           (case JSON_parse E out of
              Inl e \<Rightarrow> Inr (execution_failure e)
            | Inr v \<Rightarrow> Inr v)),
      log @ [Exec ''which devpod'', Exec (devpod_ssh_command w (escape_quotes m))])"
  using assms
  by (simp add: executeInWorkspace_def executeInWorkspace_try_def execAsync_def try_catch_def
      split: sum.splits)

lemma executeInWorkspace_direct:
  assumes "\<not> devpod_available (exec_reply E log ''which devpod'')"
    and "to_js_string message = Inr ms"
  shows "executeInWorkspace E log workspaceId message =
     ((case http_reply E (log @ [Exec ''which devpod'']) messages_url (request_body ms)
              (request_config E) of
         Inl e \<Rightarrow> Inr (execution_failure e)
       | Inr response \<Rightarrow>
           (case response_text response of
              Inl e \<Rightarrow> Inr (execution_failure e)
            | Inr t \<Rightarrow>
                Inr (Obj [(''success'', Bool True), (''response'', t),
                          (''context_used'', Bool True), (''workspace_updated'', Bool True),
                          (''mode'', Str ''direct-api'')]))),
      log @ [Exec ''which devpod'', HttpPost messages_url (request_body ms) (request_config E)])"
  using assms
  by (simp add: executeInWorkspace_def executeInWorkspace_try_def execAsync_def try_catch_def
      Let_def split: sum.splits)

lemma executeInWorkspace_calls:
  "\<exists>rest. snd (executeInWorkspace E log workspaceId message) = log @ Exec ''which devpod'' # rest
      \<and> length rest \<le> 1"
  by (simp add: executeInWorkspace_def executeInWorkspace_try_def execAsync_def try_catch_def
      Let_def split: sum.splits)

lemma direct_chat:
  "executeInWorkspace direct_env [] (Str ''w1'') (Str ''hi'') =
     (Inr (Obj [(''success'', Bool True), (''response'', Str ''Use a component.''),
                (''context_used'', Bool True), (''workspace_updated'', Bool True),
                (''mode'', Str ''direct-api'')]),
      [Exec ''which devpod'',
       HttpPost messages_url (request_body ''hi'') (request_config direct_env)])"
  using executeInWorkspace_direct [of direct_env "[]" "Str ''hi''" "''hi''" "Str ''w1''"]
    direct_env_unavailable [of "[]"]
  by (simp add: direct_env_def response_text_def get_prop_def)

lemma createWorkspace_failure:
  assumes "devpod_available (exec_reply E log ''which devpod'')"
    and "to_js_string repoUrl = Inr r" and "to_js_string workspaceId = Inr w"
    and "exec_reply E (log @ [Exec ''which devpod''])
           (''devpod up '' @ r @ '' --id '' @ w @ '' --provider docker'') = Inl m"
  shows "fst (createWorkspace E log workspaceId repoUrl) =
           Inr (Obj [(''success'', Bool False), (''error'', Str m)])"
  using assms
  by (simp add: createWorkspace_def createWorkspace_try_def execAsync_def try_catch_def)

lemma getWorkspaceStatus_failure:
  assumes "exec_reply E log ''devpod list --output json'' = Inl m"
  shows "fst (getWorkspaceStatus E log workspaceId) =
           Inr (Obj [(''status'', Str ''error''), (''error'', Str m)])"
  using assms
  by (simp add: getWorkspaceStatus_def getWorkspaceStatus_try_def execAsync_def try_catch_def)

lemma run_devpod_failure:
  assumes "to_js_string workspaceId = Inr w"
    and "exec_reply E log (before @ w @ after) = Inl m"
  shows "fst (try_catch (run_devpod E log before workspaceId after)
                (\<lambda>m. Inr (Obj [(''success'', Bool False), (''error'', Str m)]))) =
           Inr (Obj [(''success'', Bool False), (''error'', Str m)])"
  using assms by (simp add: run_devpod_def execAsync_def try_catch_def)

subsection \<open>Failure values\<close>

text \<open>
  C1 (as amended). No operation of the workspace manager throws: each of
  \<^verbatim>\<open>createWorkspace\<close>, \<^verbatim>\<open>executeInWorkspace\<close>, \<^verbatim>\<open>getWorkspaceStatus\<close>,
  \<^verbatim>\<open>stopWorkspace\<close> and \<^verbatim>\<open>deleteWorkspace\<close> returns a value. When the call to the
  provisioning tool (or, without the tool, the HTTP call) fails with message \<open>m\<close>,
  \<^verbatim>\<open>createWorkspace\<close>, \<^verbatim>\<open>stopWorkspace\<close> and \<^verbatim>\<open>deleteWorkspace\<close> return
  \<^verbatim>\<open>{success:false, error:m}\<close>, \<^verbatim>\<open>executeInWorkspace\<close> returns that object with
  the additional fixed \<^verbatim>\<open>response\<close> text, and \<^verbatim>\<open>getWorkspaceStatus\<close> returns
  \<^verbatim>\<open>{status:'error', error:m}\<close>, which has no \<^verbatim>\<open>success\<close> property.
\<close>

theorem manager_failure_values:
  "(\<exists>v. fst (createWorkspace E log workspaceId repoUrl) = Inr v)
   \<and> (\<exists>v. fst (executeInWorkspace E log workspaceId message) = Inr v)
   \<and> (\<exists>v. fst (getWorkspaceStatus E log workspaceId) = Inr v)
   \<and> (\<exists>v. fst (stopWorkspace E log workspaceId) = Inr v)
   \<and> (\<exists>v. fst (deleteWorkspace E log workspaceId) = Inr v)
   \<and> (devpod_available (exec_reply E log ''which devpod'') \<longrightarrow>
        to_js_string repoUrl = Inr r \<longrightarrow> to_js_string workspaceId = Inr w \<longrightarrow>
        exec_reply E (log @ [Exec ''which devpod''])
          (''devpod up '' @ r @ '' --id '' @ w @ '' --provider docker'') = Inl m \<longrightarrow>
        fst (createWorkspace E log workspaceId repoUrl) =
          Inr (Obj [(''success'', Bool False), (''error'', Str m)]))
   \<and> (devpod_available (exec_reply E log ''which devpod'') \<longrightarrow>
        to_js_string workspaceId = Inr w \<longrightarrow> message = Str s \<longrightarrow>
        exec_reply E (log @ [Exec ''which devpod''])
          (devpod_ssh_command w (escape_quotes s)) = Inl m \<longrightarrow>
        fst (executeInWorkspace E log workspaceId message) =
          Inr (Obj [(''success'', Bool False), (''error'', Str m),
                    (''response'', Str ''I encountered an error processing your request.'')]))
   \<and> (\<not> devpod_available (exec_reply E log ''which devpod'') \<longrightarrow>
        to_js_string message = Inr ms \<longrightarrow>
        http_reply E (log @ [Exec ''which devpod'']) messages_url (request_body ms)
          (request_config E) = Inl m \<longrightarrow>
        fst (executeInWorkspace E log workspaceId message) =
          Inr (Obj [(''success'', Bool False), (''error'', Str m),
                    (''response'', Str ''I encountered an error processing your request.'')]))
   \<and> (exec_reply E log ''devpod list --output json'' = Inl m \<longrightarrow>
        fst (getWorkspaceStatus E log workspaceId) =
          Inr (Obj [(''status'', Str ''error''), (''error'', Str m)]))
   \<and> (to_js_string workspaceId = Inr w \<longrightarrow>
        exec_reply E log (''devpod stop '' @ w) = Inl m \<longrightarrow>
        fst (stopWorkspace E log workspaceId) =
          Inr (Obj [(''success'', Bool False), (''error'', Str m)]))
   \<and> (to_js_string workspaceId = Inr w \<longrightarrow>
        exec_reply E log (''devpod delete '' @ w @ '' --force'') = Inl m \<longrightarrow>
        fst (deleteWorkspace E log workspaceId) =
          Inr (Obj [(''success'', Bool False), (''error'', Str m)]))"
proof -
  have c: "devpod_available (exec_reply E log ''which devpod'') \<longrightarrow>
        to_js_string repoUrl = Inr r \<longrightarrow> to_js_string workspaceId = Inr w \<longrightarrow>
        exec_reply E (log @ [Exec ''which devpod''])
          (''devpod up '' @ r @ '' --id '' @ w @ '' --provider docker'') = Inl m \<longrightarrow>
        fst (createWorkspace E log workspaceId repoUrl) =
          Inr (Obj [(''success'', Bool False), (''error'', Str m)])"
    using createWorkspace_failure by blast
  have e1: "devpod_available (exec_reply E log ''which devpod'') \<longrightarrow>
        to_js_string workspaceId = Inr w \<longrightarrow> message = Str s \<longrightarrow>
        exec_reply E (log @ [Exec ''which devpod''])
          (devpod_ssh_command w (escape_quotes s)) = Inl m \<longrightarrow>
        fst (executeInWorkspace E log workspaceId message) =
          Inr (Obj [(''success'', Bool False), (''error'', Str m),
                    (''response'', Str ''I encountered an error processing your request.'')])"
    by (simp add: executeInWorkspace_devpod execution_failure_def)
  have e2: "\<not> devpod_available (exec_reply E log ''which devpod'') \<longrightarrow>
        to_js_string message = Inr ms \<longrightarrow>
        http_reply E (log @ [Exec ''which devpod'']) messages_url (request_body ms)
          (request_config E) = Inl m \<longrightarrow>
        fst (executeInWorkspace E log workspaceId message) =
          Inr (Obj [(''success'', Bool False), (''error'', Str m),
                    (''response'', Str ''I encountered an error processing your request.'')])"
    by (simp add: executeInWorkspace_direct execution_failure_def)
  have g: "exec_reply E log ''devpod list --output json'' = Inl m \<longrightarrow>
        fst (getWorkspaceStatus E log workspaceId) =
          Inr (Obj [(''status'', Str ''error''), (''error'', Str m)])"
    using getWorkspaceStatus_failure by blast
  have s: "to_js_string workspaceId = Inr w \<longrightarrow>
        exec_reply E log (''devpod stop '' @ w) = Inl m \<longrightarrow>
        fst (stopWorkspace E log workspaceId) =
          Inr (Obj [(''success'', Bool False), (''error'', Str m)])"
    using run_devpod_failure [of workspaceId w E log "''devpod stop ''" "[]" m]
    by (simp add: stopWorkspace_def)
  have d: "to_js_string workspaceId = Inr w \<longrightarrow>
        exec_reply E log (''devpod delete '' @ w @ '' --force'') = Inl m \<longrightarrow>
        fst (deleteWorkspace E log workspaceId) =
          Inr (Obj [(''success'', Bool False), (''error'', Str m)])"
    using run_devpod_failure [of workspaceId w E log "''devpod delete ''" "'' --force''" m]
    by (simp add: deleteWorkspace_def)
  show ?thesis
    by (intro conjI createWorkspace_returns executeInWorkspace_returns
        getWorkspaceStatus_returns stopWorkspace_returns deleteWorkspace_returns c e1 e2 g s d)
qed

theorem manager_failure_values_witness:
  "fst (createWorkspace broken_env [] (Str ''w1'') (Str ''https://github.com/org/repo.git'')) =
     Inr (Obj [(''success'', Bool False), (''error'', Str ''Command failed'')])
   \<and> fst (executeInWorkspace broken_env [] (Str ''w1'') (Str ''hi'')) =
       Inr (Obj [(''success'', Bool False), (''error'', Str ''Command failed''),
                 (''response'', Str ''I encountered an error processing your request.'')])
   \<and> fst (executeInWorkspace offline_env [] (Str ''w1'') (Str ''hi'')) =
       Inr (Obj [(''success'', Bool False), (''error'', Str ''Network Error''),
                 (''response'', Str ''I encountered an error processing your request.'')])
   \<and> fst (getWorkspaceStatus broken_env [] (Str ''w1'')) =
       Inr (Obj [(''status'', Str ''error''), (''error'', Str ''Command failed'')])
   \<and> fst (stopWorkspace broken_env [] (Str ''w1'')) =
       Inr (Obj [(''success'', Bool False), (''error'', Str ''Command failed'')])
   \<and> fst (deleteWorkspace broken_env [] (Str ''w1'')) =
       Inr (Obj [(''success'', Bool False), (''error'', Str ''Command failed'')])"
  using manager_failure_values [of broken_env "[]" "Str ''w1''"
      "Str ''https://github.com/org/repo.git''" "Str ''hi''"
      "''https://github.com/org/repo.git''" "''w1''" "''Command failed''" "''hi''" "''hi''"]
    manager_failure_values [of offline_env "[]" "Str ''w1''"
      "Str ''https://github.com/org/repo.git''" "Str ''hi''"
      "''https://github.com/org/repo.git''" "''w1''" "''Network Error''" "''hi''" "''hi''"]
    broken_env_available [of "[]"] offline_env_unavailable [of "[]"]
  by (simp add: broken_env_exec offline_env_http devpod_ssh_command_def escape_quotes_def)

text \<open>
  C1 as stated fails for \<^verbatim>\<open>getWorkspaceStatus\<close>: when \<^verbatim>\<open>devpod list\<close> fails, the
  value returned is \<^verbatim>\<open>{status:'error', error:m}\<close> and not \<^verbatim>\<open>{success:false, error:m}\<close>.
\<close>

theorem status_failure_counterexample:
  "exec_reply broken_env [] ''devpod list --output json'' = Inl ''Command failed''
   \<and> fst (getWorkspaceStatus broken_env [] (Str ''w1'')) =
       Inr (Obj [(''status'', Str ''error''), (''error'', Str ''Command failed'')])
   \<and> fst (getWorkspaceStatus broken_env [] (Str ''w1'')) \<noteq>
       Inr (Obj [(''success'', Bool False), (''error'', Str ''Command failed'')])"
  by (simp add: getWorkspaceStatus_failure broken_env_exec)

subsection \<open>Outbound calls of a chat turn\<close>

text \<open>
  C2 (as amended). A call to \<^verbatim>\<open>executeInWorkspace\<close> first runs the probe
  \<^verbatim>\<open>which devpod\<close> as a subprocess and then makes at most one further outbound call.
  When the probe finds the tool, the message is a string and the workspace identifier
  converts to a string, that call is one \<^verbatim>\<open>devpod ssh\<close> subprocess; when the probe
  does not find the tool and the message converts to a string, it is one HTTP POST to
  the hosted endpoint. In both cases the value returned is computed from the outcome of
  that call.
\<close>

theorem chat_turn_calls:
  "(\<exists>rest. snd (executeInWorkspace E log workspaceId message) = log @ Exec ''which devpod'' # rest
      \<and> length rest \<le> 1)
   \<and> (devpod_available (exec_reply E log ''which devpod'') \<longrightarrow>
        to_js_string workspaceId = Inr w \<longrightarrow> message = Str s \<longrightarrow>
        executeInWorkspace E log workspaceId message =
          ((case exec_reply E (log @ [Exec ''which devpod''])
                   (devpod_ssh_command w (escape_quotes s)) of
              Inl e \<Rightarrow> Inr (execution_failure e)
            | Inr out \<Rightarrow>
                (case JSON_parse E out of
                   Inl e \<Rightarrow> Inr (execution_failure e)
                 | Inr v \<Rightarrow> Inr v)),
           log @ [Exec ''which devpod'', Exec (devpod_ssh_command w (escape_quotes s))]))
   \<and> (\<not> devpod_available (exec_reply E log ''which devpod'') \<longrightarrow>
        to_js_string message = Inr ms \<longrightarrow>
        executeInWorkspace E log workspaceId message =
          ((case http_reply E (log @ [Exec ''which devpod'']) messages_url (request_body ms)
                   (request_config E) of
              Inl e \<Rightarrow> Inr (execution_failure e)
            | Inr response \<Rightarrow>
                (case response_text response of
                   Inl e \<Rightarrow> Inr (execution_failure e)
                 | Inr t \<Rightarrow>
                     Inr (Obj [(''success'', Bool True), (''response'', t),
                               (''context_used'', Bool True), (''workspace_updated'', Bool True),
                               (''mode'', Str ''direct-api'')]))),
           log @ [Exec ''which devpod'',
                  HttpPost messages_url (request_body ms) (request_config E)]))"
proof (intro conjI impI)
  show "\<exists>rest. snd (executeInWorkspace E log workspaceId message)
          = log @ Exec ''which devpod'' # rest \<and> length rest \<le> 1"
    by (rule executeInWorkspace_calls)
qed (simp_all add: executeInWorkspace_devpod executeInWorkspace_direct)

theorem chat_turn_calls_witness:
  "executeInWorkspace devpod_env [] (Str ''w1'') (Str ''hi'') =
     (Inr (Obj [(''success'', Bool True), (''response'', Str ''done'')]),
      [Exec ''which devpod'', Exec (devpod_ssh_command ''w1'' ''hi'')])
   \<and> executeInWorkspace direct_env [] (Str ''w1'') (Str ''hi'') =
     (Inr (Obj [(''success'', Bool True), (''response'', Str ''Use a component.''),
                (''context_used'', Bool True), (''workspace_updated'', Bool True),
                (''mode'', Str ''direct-api'')]),
      [Exec ''which devpod'',
       HttpPost messages_url (request_body ''hi'') (request_config direct_env)])"
  using chat_turn_calls [of devpod_env "[]" "Str ''w1''" "Str ''hi''" "''w1''" "''hi''" "''hi''"]
    chat_turn_calls [of direct_env "[]" "Str ''w1''" "Str ''hi''" "''w1''" "''hi''" "''hi''"]
    devpod_env_available [of "[]"] direct_env_unavailable [of "[]"]
  by (simp add: devpod_env_exec direct_env_http sample_parse_simps escape_quotes_def
      devpod_ssh_command_def response_text_def get_prop_def)

text \<open>
  C2 as stated fails where the tool is installed. For a string message the chat turn
  invokes two subprocesses, the probe and \<^verbatim>\<open>devpod ssh\<close>, and makes no HTTP call.
  For a message that is not a string (a client may send the number 5) the probe is the
  only call: \<^verbatim>\<open>message.replace\<close> throws before any command is built.
\<close>

theorem two_subprocesses_counterexample:
  "snd (executeInWorkspace devpod_env [] (Str ''w1'') (Str ''hi'')) =
     [Exec ''which devpod'', Exec (devpod_ssh_command ''w1'' ''hi'')]
   \<and> length (filter is_subprocess (snd (executeInWorkspace devpod_env [] (Str ''w1'') (Str ''hi''))))
       = 2
   \<and> length (filter is_http (snd (executeInWorkspace devpod_env [] (Str ''w1'') (Str ''hi''))))
       = 0
   \<and> executeInWorkspace devpod_env [] (Str ''w1'') (Num ''5'') =
       (Inr (execution_failure ''message.replace is not a function''), [Exec ''which devpod''])"
proof -
  have "executeInWorkspace devpod_env [] (Str ''w1'') (Num ''5'') =
       (Inr (execution_failure ''message.replace is not a function''), [Exec ''which devpod''])"
    using devpod_env_available [of "[]"]
    by (simp add: executeInWorkspace_def executeInWorkspace_try_def execAsync_def try_catch_def)
  then show ?thesis
    by (simp add: executeInWorkspace_devpod [OF devpod_env_available] escape_quotes_def
        devpod_ssh_command_def)
qed

subsection \<open>The remote command\<close>

text \<open>
  C9. When the probe finds the provisioning tool, the command that
  \<^verbatim>\<open>executeInWorkspace\<close> runs is \<^verbatim>\<open>devpod ssh\<close>, the workspace identifier exactly as
  it converts to a string, and the handler invocation in double quotes, in which the
  message stands between two single quotes with each of its own single quotes replaced
  by the four characters quote, backslash, quote, quote.
\<close>

theorem devpod_command_escaping:
  assumes "devpod_available (exec_reply E log ''which devpod'')"
    and "to_js_string workspaceId = Inr w"
  shows "snd (executeInWorkspace E log workspaceId (Str message)) =
           log @ [Exec ''which devpod'',
                  Exec (''devpod ssh '' @ w @ '' --command '' @ [dquote]
                        @ ''cd /workspace && python3 .devcontainer/claude-handler.py ''
                        @ [squote]
                        @ concat (map (\<lambda>c. if c = squote
                                              then [squote, backslash, squote, squote]
                                              else [c]) message)
                        @ [squote, dquote])]"
  by (simp add: executeInWorkspace_devpod [OF assms] devpod_ssh_command_def escape_quotes_def)

theorem devpod_command_escaping_witness:
  "devpod_available (exec_reply devpod_env [] ''which devpod'')
   \<and> to_js_string (Str ''w1; id'') = Inr ''w1; id''
   \<and> snd (executeInWorkspace devpod_env [] (Str ''w1; id'') (Str ''it's'')) =
     [Exec ''which devpod'',
      Exec (''devpod ssh w1; id --command '' @ [dquote]
            @ ''cd /workspace && python3 .devcontainer/claude-handler.py ''
            @ [squote] @ ''it'' @ [squote, backslash, squote, squote] @ ''s''
            @ [squote, dquote])]"
  using devpod_command_escaping [of devpod_env "[]" "Str ''w1; id''" "''w1; id''" "''it's''"]
    devpod_env_available [of "[]"]
  by simp

section \<open>The HTTP routes: chat and create\<close>

text \<open>
  C7. A chat request whose body has no \<^verbatim>\<open>message\<close>, or an empty or otherwise falsy
  one, is answered by the route handler with status 400 and the body
  \<^verbatim>\<open>{success:false, error:'message is required'}\<close>, and the log of outbound calls
  is unchanged.
\<close>

theorem chat_route_requires_message:
  assumes "\<not> nullish body" and "\<not> truthy (own_prop body ''message'')"
  shows "chat_route E log workspaceId body =
           ((400, Obj [(''success'', Bool False), (''error'', Str ''message is required'')]), log)"
  using assms by (simp add: chat_route_def chat_route_try_def destructure_def route_catch_def)

theorem chat_route_requires_message_witness:
  "chat_route devpod_env [] ''w1'' (Obj [(''message'', Str [])]) =
     ((400, Obj [(''success'', Bool False), (''error'', Str ''message is required'')]), [])
   \<and> chat_route devpod_env [] ''w1'' (Obj []) =
     ((400, Obj [(''success'', Bool False), (''error'', Str ''message is required'')]), [])"
  using chat_route_requires_message [of "Obj [(''message'', Str [])]" devpod_env "[]" "''w1''"]
    chat_route_requires_message [of "Obj []" devpod_env "[]" "''w1''"]
  by simp

lemma below_ten: "(d::nat) < 10 \<Longrightarrow> d \<in> {0, 1, 2, 3, 4, 5, 6, 7, 8, 9}"
  by auto

lemma digit_char_inj:
  assumes "d < 10" and "e < 10" and "digit_char d = digit_char e"
  shows "d = e"
  using below_ten [OF assms(1)] below_ten [OF assms(2)] assms(3)
  by (auto simp: digit_char_def)

lemma digit_char_not_dash: "d < 10 \<Longrightarrow> digit_char d \<noteq> CHR ''-''"
  using below_ten [of d] by (auto simp: digit_char_def)

lemma show_nat_no_dash: "CHR ''-'' \<notin> set (show_nat n)"
proof (induction n rule: show_nat.induct)
  case (1 n)
  show ?case
  proof (cases "n < 10")
    case True
    then show ?thesis using digit_char_not_dash [of n]
      by (auto simp: show_nat.simps [of n])
  next
    case False
    then show ?thesis using "1.IH" digit_char_not_dash [of "n mod 10"]
      by (simp add: show_nat.simps [of n])
  qed
qed

lemma show_nat_nonempty: "show_nat n \<noteq> []"
  by (simp add: show_nat.simps [of n])

lemma show_nat_inj: "show_nat n = show_nat m \<Longrightarrow> n = m"
proof (induction n arbitrary: m rule: show_nat.induct)
  case (1 n)
  show ?case
  proof (cases "n < 10")
    case n: True
    show ?thesis
    proof (cases "m < 10")
      case True
      with n "1.prems" show ?thesis
        by (simp add: show_nat.simps [of n] show_nat.simps [of m] digit_char_inj)
    next
      case False
      with n "1.prems" show ?thesis
        using show_nat_nonempty [of "m div 10"]
        by (simp add: show_nat.simps [of n] show_nat.simps [of m])
    qed
  next
    case n: False
    show ?thesis
    proof (cases "m < 10")
      case True
      with n "1.prems" show ?thesis
        using show_nat_nonempty [of "n div 10"]
        by (simp add: show_nat.simps [of n] show_nat.simps [of m])
    next
      case False
      with n "1.prems" have "show_nat (n div 10) = show_nat (m div 10)"
        and d: "digit_char (n mod 10) = digit_char (m mod 10)"
        by (simp_all add: show_nat.simps [of n] show_nat.simps [of m])
      then have "n div 10 = m div 10" using "1.IH" n by blast
      moreover have "n mod 10 = m mod 10" using d by (intro digit_char_inj) simp_all
      ultimately show ?thesis by (metis div_mult_mod_eq)
    qed
  qed
qed

lemma first_separator_inj:
  assumes "c \<notin> set xs" and "c \<notin> set xs'" and "xs @ c # ys = xs' @ c # ys'"
  shows "xs = xs' \<and> ys = ys'"
  using assms
proof (induction xs arbitrary: xs')
  case Nil
  then show ?case by (cases xs') auto
next
  case (Cons x xs)
  then show ?case by (cases xs') auto
qed

lemma dashed_suffix_inj:
  assumes "c \<notin> set d" and "c \<notin> set d'" and "u @ c # d = u' @ c # d'"
  shows "u = u' \<and> d = d'"
proof -
  have "rev (u @ c # d) = rev (u' @ c # d')" using assms(3) by simp
  then have "rev d @ c # rev u = rev d' @ c # rev u'" by simp
  moreover have "c \<notin> set (rev d)" "c \<notin> set (rev d')" using assms by simp_all
  ultimately have "rev d = rev d' \<and> rev u = rev u'"
    by (rule first_separator_inj [rotated 2])
  then show ?thesis by simp
qed

lemma new_workspace_id_inj:
  assumes "new_workspace_id (Str u) now = new_workspace_id (Str u') now'"
  shows "u = u' \<and> now = now'"
proof -
  have "u @ CHR ''-'' # show_nat now = u' @ CHR ''-'' # show_nat now'"
    using assms by (simp add: new_workspace_id_def)
  then have "u = u' \<and> show_nat now = show_nat now'"
    using dashed_suffix_inj [OF show_nat_no_dash show_nat_no_dash] by blast
  then show ?thesis using show_nat_inj by blast
qed

lemma create_route_first_call:
  assumes "\<not> nullish body"
    and "truthy (own_prop body ''userId'')" and "truthy (own_prop body ''projectName'')"
    and "to_js_string (own_prop body ''userId'') = Inr u"
    and "to_js_string (own_prop body ''projectName'') = Inr p"
  shows "\<exists>rest. snd (create_route E log body now) =
           log @ CreateRepo (template_params E (''workspace-'' @ u @ ''-'' @ show_nat now) p) # rest"
  using assms
  by (auto simp: create_route_def create_route_try_def route_catch_def destructure_def
      new_workspace_id_def Let_def split: sum.splits prod.splits
      dest!: createWorkspace_extends)

lemma show_nat_sample: "show_nat 1750100640000 = ''1750100640000''"
  by (simp add: show_nat.simps digit_char_def)

lemma sample_create_calls:
  "snd (create_route devpod_env log sample_create 1750100640000) =
     log @ [CreateRepo (template_params devpod_env ''workspace-u1-1750100640000'' ''demo''),
            Exec ''which devpod'',
            Exec ''devpod up https://github.com/org/repo.git --id workspace-u1-1750100640000 --provider docker'']"
  by (simp add: create_route_def create_route_try_def route_catch_def destructure_def
      new_workspace_id_def sample_create_def show_nat_sample devpod_env_repo sample_repo_def
      repo_data_prop_def get_prop_def createWorkspace_def createWorkspace_try_def
      execAsync_def try_catch_def devpod_env_available devpod_env_exec)

text \<open>
  C8 (as amended). For a creation request with user id \<open>u\<close> handled at clock reading
  \<open>now\<close>, the identifier is \<^verbatim>\<open>workspace-\<close>, \<open>u\<close>, a dash and the decimal
  rendering of \<open>now\<close>, and it is the name of the repository the handler asks for.
  Identifiers built for string user ids differ whenever the user ids differ or the
  clock readings differ.
\<close>

theorem workspace_id_construction:
  "(\<not> nullish body \<longrightarrow> truthy (own_prop body ''userId'') \<longrightarrow>
      truthy (own_prop body ''projectName'') \<longrightarrow>
      to_js_string (own_prop body ''userId'') = Inr u \<longrightarrow>
      to_js_string (own_prop body ''projectName'') = Inr p \<longrightarrow>
      new_workspace_id (own_prop body ''userId'') now
        = Inr (''workspace-'' @ u @ ''-'' @ show_nat now)
      \<and> (\<exists>rest. snd (create_route E log body now) =
            log @ CreateRepo (template_params E (''workspace-'' @ u @ ''-'' @ show_nat now) p)
                  # rest))
   \<and> ((a, t) \<noteq> (a', t') \<longrightarrow> new_workspace_id (Str a) t \<noteq> new_workspace_id (Str a') t')"
proof (intro conjI impI)
  assume "(a, t) \<noteq> (a', t')"
  then show "new_workspace_id (Str a) t \<noteq> new_workspace_id (Str a') t'"
    using new_workspace_id_inj by blast
next
  assume "to_js_string (own_prop body ''userId'') = Inr u"
  then show "new_workspace_id (own_prop body ''userId'') now
        = Inr (''workspace-'' @ u @ ''-'' @ show_nat now)"
    by (simp add: new_workspace_id_def)
qed (rule create_route_first_call)

theorem workspace_id_construction_witness:
  "new_workspace_id (own_prop sample_create ''userId'') 1750100640000
     = Inr ''workspace-u1-1750100640000''
   \<and> (\<exists>rest. snd (create_route devpod_env [] sample_create 1750100640000) =
         CreateRepo (template_params devpod_env ''workspace-u1-1750100640000'' ''demo'') # rest)
   \<and> new_workspace_id (Str ''u1'') 1750100640000 \<noteq> new_workspace_id (Str ''u1'') 1750100640001"
  using workspace_id_construction [of sample_create "''u1''" "''demo''" 1750100640000
      devpod_env "[]" "''u1''" 1750100640000 "''u1''" 1750100640001]
  by (auto simp: sample_create_def show_nat_sample)

text \<open>
  C8 as stated fails for two requests of one user handled within the same millisecond:
  both get the same identifier.
\<close>

theorem same_millisecond_counterexample:
  "created_names (serve_creates devpod_env []
      [(sample_create, 1750100640000), (sample_create, 1750100640000)])
     = [Str ''workspace-u1-1750100640000'', Str ''workspace-u1-1750100640000'']
   \<and> \<not> distinct (created_names (serve_creates devpod_env []
      [(sample_create, 1750100640000), (sample_create, 1750100640000)]))"
  by (simp add: sample_create_calls template_params_def)

section \<open>The socket relay: replies and the connection table\<close>

lemma not_index_keys [simp]:
  "\<not> is_index ''type''" "\<not> is_index ''status''" "\<not> is_index ''error''"
  "\<not> is_index ''workspaceId''" "\<not> is_index ''success''" "\<not> is_index ''response''"
  "\<not> is_index ''context_used''" "\<not> is_index ''workspace_updated''"
  "\<not> is_index ''mode''" "\<not> is_index ''timestamp''"
  by (simp_all add: is_index_def is_digit_def)

lemmas wire_eval = wire_def enumeration_order_def non_finite_def

lemma map_of_enumeration_order:
  assumes "\<not> is_index k"
  shows "map_of (enumeration_order kvs) k = map_of (filter (\<lambda>kv. \<not> is_index (fst kv)) kvs) k"
proof -
  have "k \<notin> fst ` set (sort_key (\<lambda>kv. parse_nat (fst kv)) (filter (\<lambda>kv. is_index (fst kv)) kvs))"
    using assms by auto
  then have "map_of (sort_key (\<lambda>kv. parse_nat (fst kv)) (filter (\<lambda>kv. is_index (fst kv)) kvs)) k
      = None"
    by (simp add: map_of_eq_None_iff)
  then show ?thesis by (simp add: enumeration_order_def map_add_def)
qed

lemma payload_type_wire_head [simp]:
  "payload_type (wire ((''type'', Str t) # rest)) = Str t"
  by (simp add: payload_type_def wire_def map_of_enumeration_order)

lemma json_value_plain: "plain v \<Longrightarrow> json_value v = v"
  by (cases v) simp_all

lemma wire_typing [simp]:
  "wire [(''type'', Str ''typing''), (''status'', Bool b)] =
     Obj [(''type'', Str ''typing''), (''status'', Bool b)]"
  by (simp add: wire_eval)

lemma wire_connected:
  "workspaceId \<noteq> Undefined \<Longrightarrow>
   wire [(''type'', Str ''connected''), (''workspaceId'', workspaceId)] =
     Obj [(''type'', Str ''connected''), (''workspaceId'', json_value workspaceId)]"
  by (simp add: wire_eval)

lemma sent_ws_send [simp]:
  "sent (ws_send a props st) b = (if b = a then sent st a @ [wire props] else sent st b)"
  by (simp add: ws_send_def)

lemma outbound_ws_send [simp]: "outbound (ws_send a props st) = outbound st"
  by (simp add: ws_send_def)

lemma outbound_ws_init [simp]: "outbound (ws_init a workspaceId st) = outbound st"
  by (simp add: ws_init_def Let_def)

lemma sent_ws_init [simp]:
  "sent (ws_init a workspaceId st) b =
     (if b = a then sent st a @ [wire [(''type'', Str ''connected''), (''workspaceId'', workspaceId)]]
      else sent st b)"
  by (simp add: ws_init_def Let_def)

lemma sent_ws_chat:
  "fst (executeInWorkspace E (outbound st) workspaceId message) = Inr r \<Longrightarrow>
   sent (ws_chat E a workspaceId message timestamp st) b =
     (if b = a
      then sent st a @ [wire [(''type'', Str ''typing''), (''status'', Bool True)],
                        wire (response_payload r timestamp),
                        wire [(''type'', Str ''typing''), (''status'', Bool False)]]
      else sent st b)"
proof -
  assume "fst (executeInWorkspace E (outbound st) workspaceId message) = Inr r"
  then obtain log1 where
    "executeInWorkspace E (outbound st) workspaceId message = (Inr r, log1)"
    by (cases "executeInWorkspace E (outbound st) workspaceId message") simp
  then show ?thesis by (simp add: ws_chat_def Let_def)
qed

lemma sent_ws_chat_other:
  "a \<noteq> b \<Longrightarrow> sent (ws_chat E a workspaceId message timestamp st) b = sent st b"
  by (simp add: ws_chat_def ws_error_def Let_def split: prod.splits sum.splits)

lemma sent_ws_message_other:
  "a \<noteq> b \<Longrightarrow> sent (ws_message E a data timestamp st) b = sent st b"
  by (simp add: ws_message_def ws_error_def Let_def sent_ws_chat_other split: sum.splits)

lemma sent_ws_close [simp]: "sent (ws_close a st) b = sent st b"
  by (simp add: ws_close_def)

lemma sent_run_other:
  "\<forall>e \<in> set events. event_socket e \<noteq> b \<Longrightarrow> sent (run E st events) b = sent st b"
proof (induction events arbitrary: st)
  case Nil
  then show ?case by (simp add: run_def)
next
  case (Cons e events)
  have "sent (handle E st e) b = sent st b"
    using Cons.prems by (cases e) (simp_all add: sent_ws_message_other)
  moreover have "sent (run E (handle E st e) events) b = sent (handle E st e) b"
    using Cons.prems by (intro Cons.IH) simp
  ultimately show ?case by (simp add: run_def)
qed

lemma activeConnections_ws_send [simp]:
  "activeConnections (ws_send a props st) = activeConnections st"
  by (simp add: ws_send_def)

lemma activeConnections_ws_chat [simp]:
  "activeConnections (ws_chat E a workspaceId message timestamp st) = activeConnections st"
  by (simp add: ws_chat_def ws_error_def Let_def split: prod.splits sum.splits)

lemma assign_keeps_head:
  "k \<notin> fst ` set props \<Longrightarrow> \<exists>rest. assign props ((k, v) # base) = (k, v) # rest"
proof (induction props arbitrary: base)
  case Nil
  then show ?case by (simp add: assign_def)
next
  case (Cons p props)
  obtain k' v' where p: "p = (k', v')" by (cases p)
  with Cons.prems have "k' \<noteq> k" and "k \<notin> fst ` set props" by auto
  then show ?case using Cons.IH [of "AList.update k' v' base"] p
    by (simp add: assign_def)
qed

lemma payload_type_response:
  assumes "''type'' \<notin> fst ` set (spread_props r)"
  shows "payload_type (wire (response_payload r timestamp)) = Str ''response''"
proof -
  obtain rest where "assign (spread_props r) [(''type'', Str ''response'')]
      = (''type'', Str ''response'') # rest"
    using assign_keeps_head [OF assms] by blast
  then show ?thesis
    by (simp add: response_payload_def)
qed

lemma two_inits_simps:
  "sent two_inits 3 = [Obj [(''type'', Str ''connected''), (''workspaceId'', Str ''w1'')]]"
  "sent two_inits 5 = [Obj [(''type'', Str ''connected''), (''workspaceId'', Str ''w1'')]]"
  "outbound two_inits = []"
  by (simp_all add: two_inits_def run_def ws_message_def sample_parse_simps destructure_def
      Let_def relay_start_def wire_eval)

text \<open>
  C3 (as amended). Every payload the server sends, on any connection, in reply to a
  client message has type \<^verbatim>\<open>connected\<close>, \<^verbatim>\<open>typing\<close>, \<^verbatim>\<open>response\<close> or
  \<^verbatim>\<open>error\<close>, provided that, when the message starts a chat turn (its type is
  \<^verbatim>\<open>chat\<close> and its \<^verbatim>\<open>workspaceId\<close> and \<^verbatim>\<open>message\<close> are truthy), the result
  of that chat turn has no property named \<^verbatim>\<open>type\<close> of its own (the result is spread
  over the \<^verbatim>\<open>response\<close> payload and would replace its type).
\<close>

theorem relay_message_types:
  assumes "\<And>parsed r. JSON_parse E data = Inr parsed \<Longrightarrow>
             own_prop parsed ''type'' = Str ''chat'' \<Longrightarrow>
             truthy (own_prop parsed ''workspaceId'') \<Longrightarrow>
             truthy (own_prop parsed ''message'') \<Longrightarrow>
             fst (executeInWorkspace E (outbound st) (own_prop parsed ''workspaceId'')
                    (own_prop parsed ''message'')) = Inr r \<Longrightarrow>
             ''type'' \<notin> fst ` set (spread_props r)"
  shows "\<exists>new. sent (ws_message E ws data timestamp st) b = sent st b @ new
           \<and> payload_type ` set new
               \<subseteq> {Str ''connected'', Str ''typing'', Str ''response'', Str ''error''}"
proof (cases "b = ws")
  case False
  then show ?thesis by (simp add: sent_ws_message_other)
next
  case True
  show ?thesis
  proof (cases "JSON_parse E data")
    case (Inl m)
    then show ?thesis using True
      by (simp add: ws_message_def ws_error_def)
  next
    case (Inr parsed)
    show ?thesis
    proof (cases "nullish parsed")
      case nullish: True
      with Inr show ?thesis using True
        by (simp add: ws_message_def destructure_def ws_error_def)
    next
      case present: False
      show ?thesis
      proof (cases "own_prop parsed ''type'' = Str ''chat''
                    \<and> truthy (own_prop parsed ''workspaceId'')
                    \<and> truthy (own_prop parsed ''message'')")
        case chat: True
        obtain r where r: "fst (executeInWorkspace E (outbound st)
                       (own_prop parsed ''workspaceId'') (own_prop parsed ''message'')) = Inr r"
          using executeInWorkspace_returns by blast
        have "''type'' \<notin> fst ` set (spread_props r)"
          using assms [OF Inr _ _ _ r] chat by blast
        then have "payload_type (wire (response_payload r timestamp)) = Str ''response''"
          by (rule payload_type_response)
        then show ?thesis using Inr present chat r True
          by (simp add: ws_message_def destructure_def Let_def sent_ws_chat payload_type_def)
      next
        case False
        then show ?thesis using Inr present True
          by (auto simp: ws_message_def destructure_def Let_def)
      qed
    qed
  qed
qed

theorem relay_message_types_witness:
  "map payload_type (sent (ws_message direct_env 1 chat_w1 ''2025-06-16T19:04:00.000Z''
        relay_start) 1) = [Str ''typing'', Str ''response'', Str ''typing'']
   \<and> (\<exists>new. sent (ws_message direct_env 1 chat_w1 ''2025-06-16T19:04:00.000Z'' relay_start) 1
              = sent relay_start 1 @ new
           \<and> payload_type ` set new
               \<subseteq> {Str ''connected'', Str ''typing'', Str ''response'', Str ''error''})"
proof -
  have h: "\<And>parsed r. JSON_parse direct_env chat_w1 = Inr parsed \<Longrightarrow>
             own_prop parsed ''type'' = Str ''chat'' \<Longrightarrow>
             truthy (own_prop parsed ''workspaceId'') \<Longrightarrow>
             truthy (own_prop parsed ''message'') \<Longrightarrow>
             fst (executeInWorkspace direct_env (outbound relay_start)
                    (own_prop parsed ''workspaceId'') (own_prop parsed ''message'')) = Inr r \<Longrightarrow>
             ''type'' \<notin> fst ` set (spread_props r)"
    by (auto simp: sample_parse_simps relay_start_def direct_chat)
  have "sent (ws_message direct_env 1 chat_w1 ''2025-06-16T19:04:00.000Z'' relay_start) 1
        = [Obj [(''type'', Str ''typing''), (''status'', Bool True)],
           Obj [(''type'', Str ''response''), (''success'', Bool True),
                (''response'', Str ''Use a component.''),
                (''context_used'', Bool True), (''workspace_updated'', Bool True),
                (''mode'', Str ''direct-api''), (''timestamp'', Str ''2025-06-16T19:04:00.000Z'')],
           Obj [(''type'', Str ''typing''), (''status'', Bool False)]]"
    by (simp add: ws_message_def sample_parse_simps destructure_def Let_def relay_start_def
        ws_chat_def direct_chat wire_eval response_payload_def assign_def ws_send_def)
  then show ?thesis
    using relay_message_types [of direct_env chat_w1 relay_start 1 "''2025-06-16T19:04:00.000Z''"
        1, OF h]
    by (simp add: payload_type_def)
qed

text \<open>
  C3 as stated fails for a client message that is not valid JSON: the server answers
  with a payload of type \<^verbatim>\<open>error\<close>.
\<close>

theorem error_reply_counterexample:
  "map payload_type (sent (ws_message direct_env 1 malformed ''2025-06-16T19:04:00.000Z''
        relay_start) 1) = [Str ''error'']
   \<and> Str ''error'' \<notin> {Str ''connected'', Str ''typing'', Str ''response''}"
  by (simp add: ws_message_def sample_parse_simps ws_error_def wire_eval relay_start_def
      payload_type_def)

text \<open>
  The proviso is needed: a property \<^verbatim>\<open>type\<close> in the output of the remote handler
  replaces the type of the \<^verbatim>\<open>response\<close> payload.
\<close>

lemma response_type_replaced:
  "payload_type (wire (response_payload
      (Obj [(''type'', Str ''status''), (''success'', Bool True)]) ''2025-06-16T19:04:00.000Z''))
     = Str ''status''"
  by (simp add: payload_type_def wire_eval response_payload_def assign_def)

text \<open>
  The keys of the connection table stay pairwise distinct: a workspace identifier maps
  to at most one connection in every reachable state.
\<close>

lemma active_keys_distinct_step:
  assumes "distinct (map fst (activeConnections st))"
  shows "distinct (map fst (activeConnections (handle E st e)))"
proof (cases e)
  case (Message a data timestamp)
  then show ?thesis using assms
    by (auto simp: ws_message_def ws_error_def ws_init_def Let_def distinct_update
        split: sum.splits)
next
  case (Close a)
  then show ?thesis using assms by (simp add: ws_close_def distinct_delete)
qed

lemma active_keys_distinct:
  "distinct (map fst (activeConnections st)) \<Longrightarrow>
   distinct (map fst (activeConnections (run E st events)))"
  unfolding run_def
  by (induction events arbitrary: st) (simp_all add: active_keys_distinct_step)

text \<open>
  C4. A connection that sends \<^verbatim>\<open>init\<close> for \<^verbatim>\<open>w1\<close>, then \<^verbatim>\<open>init\<close> for
  \<^verbatim>\<open>w2\<close>, and then closes leaves its entry under \<^verbatim>\<open>w1\<close> in the table: the close
  handler removes only the entry of the latest \<^verbatim>\<open>init\<close>.
\<close>

theorem stale_connection_entry:
  "activeConnections (run direct_env relay_start
      [Message 1 init_w1 ''2025-06-16T19:04:00.000Z'',
       Message 1 init_w2 ''2025-06-16T19:04:01.000Z'', Close 1]) = [(Prim (Str ''w1''), 1)]"
  by (simp add: run_def ws_message_def sample_parse_simps destructure_def Let_def relay_start_def
      ws_init_def ws_send_def ws_close_def)

text \<open>
  Likewise, when two connections have sent \<^verbatim>\<open>init\<close> for the same identifier and the
  first one closes, the entry of the second, still open, is removed.
\<close>

lemma close_removes_other_entry:
  "activeConnections two_inits = [(Prim (Str ''w1''), 5)]
   \<and> activeConnections (ws_close 3 two_inits) = []"
  by (simp add: two_inits_def run_def ws_message_def sample_parse_simps destructure_def Let_def
      relay_start_def ws_init_def ws_send_def ws_close_def)

text \<open>
  C5. A chat message handled on one connection changes nothing of what has been sent on
  any other connection, whatever the state of the relay, and its three replies
  (\<^verbatim>\<open>typing\<close>, the \<^verbatim>\<open>response\<close>, \<^verbatim>\<open>typing\<close>) are appended on the connection
  it arrived on.
\<close>

theorem chat_response_delivery:
  assumes "a \<noteq> b"
    and "JSON_parse E data = Inr parsed"
    and "own_prop parsed ''type'' = Str ''chat''"
    and "truthy (own_prop parsed ''workspaceId'')"
    and "truthy (own_prop parsed ''message'')"
  shows "sent (ws_message E a data timestamp st) b = sent st b
         \<and> (\<exists>r. fst (executeInWorkspace E (outbound st) (own_prop parsed ''workspaceId'')
                       (own_prop parsed ''message'')) = Inr r
                \<and> sent (ws_message E a data timestamp st) a =
                    sent st a @ [Obj [(''type'', Str ''typing''), (''status'', Bool True)],
                                 wire (response_payload r timestamp),
                                 Obj [(''type'', Str ''typing''), (''status'', Bool False)]])"
proof -
  have n: "\<not> nullish parsed" using assms(3) by (cases parsed) auto
  obtain r where r: "fst (executeInWorkspace E (outbound st) (own_prop parsed ''workspaceId'')
                       (own_prop parsed ''message'')) = Inr r"
    using executeInWorkspace_returns by blast
  have "sent (ws_message E a data timestamp st) a =
          sent st a @ [Obj [(''type'', Str ''typing''), (''status'', Bool True)],
                       wire (response_payload r timestamp),
                       Obj [(''type'', Str ''typing''), (''status'', Bool False)]]"
    using n assms r by (simp add: ws_message_def destructure_def Let_def sent_ws_chat)
  then show ?thesis using r sent_ws_message_other [OF assms(1)] by blast
qed

theorem chat_response_delivery_witness:
  "sent (ws_message direct_env 3 chat_w1 ''2025-06-16T19:04:02.000Z'' two_inits) 5 =
     [Obj [(''type'', Str ''connected''), (''workspaceId'', Str ''w1'')]]
   \<and> sent (ws_message direct_env 3 chat_w1 ''2025-06-16T19:04:02.000Z'' two_inits) 3 =
     [Obj [(''type'', Str ''connected''), (''workspaceId'', Str ''w1'')],
      Obj [(''type'', Str ''typing''), (''status'', Bool True)],
      Obj [(''type'', Str ''response''), (''success'', Bool True),
           (''response'', Str ''Use a component.''),
           (''context_used'', Bool True), (''workspace_updated'', Bool True),
           (''mode'', Str ''direct-api''), (''timestamp'', Str ''2025-06-16T19:04:02.000Z'')],
      Obj [(''type'', Str ''typing''), (''status'', Bool False)]]"
  using chat_response_delivery [of 3 5 direct_env chat_w1
      "Obj [(''type'', Str ''chat''), (''workspaceId'', Str ''w1''), (''message'', Str ''hi'')]"
      "''2025-06-16T19:04:02.000Z''" two_inits]
  by (simp add: sample_parse_simps two_inits_simps direct_chat wire_eval response_payload_def
      assign_def)

text \<open>
  C6 (as amended). A message of type \<^verbatim>\<open>init\<close> that carries a workspace identifier
  is answered on the same connection with exactly one payload, \<^verbatim>\<open>connected\<close> with
  that identifier as \<^verbatim>\<open>JSON.stringify\<close> serialises it: the same identifier when it is
  a string, a boolean, \<^verbatim>\<open>null\<close> or a finite number.
\<close>

theorem init_echo:
  assumes "JSON_parse E data = Inr parsed"
    and "own_prop parsed ''type'' = Str ''init''"
    and "own_prop parsed ''workspaceId'' = workspaceId"
    and "workspaceId \<noteq> Undefined"
  shows "sent (ws_message E ws data timestamp st) ws =
           sent st ws @ [Obj [(''type'', Str ''connected''),
                              (''workspaceId'', json_value workspaceId)]]
         \<and> (plain workspaceId \<longrightarrow>
              sent (ws_message E ws data timestamp st) ws =
                sent st ws @ [Obj [(''type'', Str ''connected''),
                                   (''workspaceId'', workspaceId)]])"
proof -
  have "\<not> nullish parsed" using assms(2) by (cases parsed) auto
  then have "sent (ws_message E ws data timestamp st) ws =
           sent st ws @ [Obj [(''type'', Str ''connected''),
                              (''workspaceId'', json_value workspaceId)]]"
    using assms by (simp add: ws_message_def destructure_def Let_def wire_connected)
  then show ?thesis by (simp add: json_value_plain)
qed

theorem init_echo_witness:
  "plain (Str ''w1'')
   \<and> sent (ws_message devpod_env 7 init_w1 ''2025-06-16T19:04:00.000Z'' relay_start) 7 =
       [Obj [(''type'', Str ''connected''), (''workspaceId'', Str ''w1'')]]"
  using init_echo [of devpod_env init_w1
      "Obj [(''type'', Str ''init''), (''workspaceId'', Str ''w1'')]" "Str ''w1''"
      7 "''2025-06-16T19:04:00.000Z''" relay_start]
  by (simp add: sample_parse_simps relay_start_def)

text \<open>
  C6 as stated fails for an identifier that is not a finite number: the client message
  \<^verbatim>\<open>{"type":"init","workspaceId":1e999}\<close> parses to the identifier \<^verbatim>\<open>Infinity\<close>,
  and the reply carries \<^verbatim>\<open>null\<close>.
\<close>

theorem init_echo_counterexample:
  "JSON_parse devpod_env init_huge =
     Inr (Obj [(''type'', Str ''init''), (''workspaceId'', Num ''Infinity'')])
   \<and> sent (ws_message devpod_env 7 init_huge ''2025-06-16T19:04:00.000Z'' relay_start) 7 =
       [Obj [(''type'', Str ''connected''), (''workspaceId'', Null)]]
   \<and> Null \<noteq> Num ''Infinity''"
  by (simp add: ws_message_def sample_parse_simps destructure_def Let_def relay_start_def
      wire_eval)

text \<open>
  C10. A message of type \<^verbatim>\<open>chat\<close> whose \<^verbatim>\<open>workspaceId\<close> or \<^verbatim>\<open>message\<close> is
  missing, empty or otherwise falsy leaves the relay as it was: nothing is sent on any
  connection and no outbound call is logged.
\<close>

theorem chat_without_fields_is_silent:
  assumes "JSON_parse E data = Inr parsed"
    and "own_prop parsed ''type'' = Str ''chat''"
    and "\<not> truthy (own_prop parsed ''workspaceId'') \<or> \<not> truthy (own_prop parsed ''message'')"
  shows "ws_message E ws data timestamp st = st"
proof -
  have "\<not> nullish parsed" using assms(2) by (cases parsed) auto
  then show ?thesis using assms by (auto simp: ws_message_def destructure_def Let_def)
qed

theorem chat_without_fields_is_silent_witness:
  "ws_message devpod_env 1 chat_empty ''2025-06-16T19:04:00.000Z'' relay_start = relay_start"
  using chat_without_fields_is_silent [of devpod_env chat_empty
      "Obj [(''type'', Str ''chat''), (''workspaceId'', Str ''w1''), (''message'', Str [])]"
      1 "''2025-06-16T19:04:00.000Z''" relay_start]
  by (simp add: sample_parse_simps)

end
